theory Spec2Isabelle
  imports Main
begin

section \<open>Python strings\<close>

text \<open>
  A Python \<open>str\<close> is modelled as a \<open>string\<close> whose characters are the code points
  0 to 255 (one \<open>char\<close> per code point), so \<open>length\<close> is Python's \<open>len\<close>. On this
  range \<open>str.lower\<close> and the case folding of \<open>re.IGNORECASE\<close> agree: both map
  \<open>A\<close> to \<open>Z\<close> and the code points 0xC0 to 0xDE (0xD7 apart) 32 places up and leave
  every other character alone. Whitespace, for \<open>str.strip\<close> and the regular
  expression class \<open>\s\<close> alike, is 0x09 to 0x0D, 0x1C to 0x20, 0x85 and 0xA0.
  The interpreter's resource limits (memory, and the bound of the regular expression
  engine on a repetition count, which a run of more than four thousand million
  hashes would reach) are outside the model.
\<close>

definition lower_char :: "char \<Rightarrow> char" where
  "lower_char c =
     (let n = (of_char c :: nat)
      in if (65 \<le> n \<and> n \<le> 90) \<or> (192 \<le> n \<and> n \<le> 222 \<and> n \<noteq> 215)
         then char_of (n + 32) else c)"

definition lower :: "string \<Rightarrow> string" where
  "lower s = map lower_char s"

definition is_space :: "char \<Rightarrow> bool" where
  "is_space c =
     (let n = (of_char c :: nat)
      in (9 \<le> n \<and> n \<le> 13) \<or> (28 \<le> n \<and> n \<le> 32) \<or> n = 133 \<or> n = 160)"

definition newline :: char where
  "newline = CHR 0x0A"

text \<open>\<open>s.strip()\<close>: leading and trailing whitespace removed.\<close>

definition strip :: "string \<Rightarrow> string" where
  "strip s = rev (dropWhile is_space (rev (dropWhile is_space s)))"

text \<open>\<open>s[a:b]\<close> for indices that are not negative; a slice never raises.\<close>

definition slice :: "string \<Rightarrow> nat \<Rightarrow> nat \<Rightarrow> string" where
  "slice s a b = take (b - a) (drop a s)"

definition startswith :: "string \<Rightarrow> string \<Rightarrow> bool" where
  "startswith s sub = (take (length sub) s = sub)"

text \<open>\<open>s.find(sub)\<close>, named \<open>find_str\<close> beside the \<open>find\<close> of lists: the lowest index where \<open>sub\<close> occurs, \<open>-1\<close> when it does not.\<close>

fun find_from :: "string \<Rightarrow> string \<Rightarrow> nat \<Rightarrow> int" where
  "find_from sub [] i = (if sub = [] then int i else -1)"
| "find_from sub (c # cs) i =
     (if startswith (c # cs) sub then int i else find_from sub cs (Suc i))"

definition find_str :: "string \<Rightarrow> string \<Rightarrow> int" where
  "find_str s sub = find_from sub s 0"

text \<open>\<open>s.rfind(sub)\<close>: the highest index where \<open>sub\<close> occurs, \<open>-1\<close> when it does not.\<close>

fun rfind_from :: "string \<Rightarrow> string \<Rightarrow> nat \<Rightarrow> int" where
  "rfind_from sub [] i = (if sub = [] then int i else -1)"
| "rfind_from sub (c # cs) i =
     (let r = rfind_from sub cs (Suc i)
      in if 0 \<le> r then r else if startswith (c # cs) sub then int i else -1)"

definition rfind :: "string \<Rightarrow> string \<Rightarrow> int" where
  "rfind s sub = rfind_from sub s 0"

text \<open>\<open>s.endswith(suffix)\<close>.\<close>

definition endswith :: "string \<Rightarrow> string \<Rightarrow> bool" where
  "endswith s suffix =
     (length suffix \<le> length s \<and> drop (length s - length suffix) s = suffix)"

text \<open>\<open>sub in s\<close> on strings.\<close>

definition contains :: "string \<Rightarrow> string \<Rightarrow> bool" where
  "contains s sub = (find_str s sub \<noteq> -1)"

text \<open>Python's truth value of an \<open>Optional[str]\<close>: \<open>None\<close> and the empty string are false.\<close>

fun truthy :: "string option \<Rightarrow> bool" where
  "truthy None = False"
| "truthy (Some s) = (s \<noteq> [])"

section \<open>The rules arbiter: text search\<close>

text \<open>
  \<open>re.compile(re.escape(term), re.IGNORECASE).search(text)\<close>: the escaped term is a
  literal, so the match is the leftmost position where the next \<open>len(term)\<close>
  characters of the text equal the term up to case. The result is
  \<open>(match.start(), match.end())\<close>.
\<close>

definition imatch :: "string \<Rightarrow> string \<Rightarrow> bool" where
  "imatch pat s = (lower (take (length pat) s) = lower pat)"

fun literal_search_from :: "string \<Rightarrow> string \<Rightarrow> nat \<Rightarrow> (nat \<times> nat) option" where
  "literal_search_from pat [] i = (if pat = [] then Some (i, i) else None)"
| "literal_search_from pat (c # cs) i =
     (if imatch pat (c # cs) then Some (i, i + length pat)
      else literal_search_from pat cs (Suc i))"

definition literal_search :: "string \<Rightarrow> string \<Rightarrow> (nat \<times> nat) option" where
  "literal_search pat text = literal_search_from pat text 0"

text \<open>
  \<open>RulesArbiter._search_in_text\<close> (a leading underscore is not an Isabelle name). The
  indices are Python's integers: \<open>find\<close> and \<open>rfind\<close> answer \<open>-1\<close> for "not found", and
  the two comparisons below are the source's own.
\<close>

definition search_in_text :: "string \<Rightarrow> string \<Rightarrow> string option" where
  "search_in_text search_term text =
     (if text = [] \<or> search_term = [] then None
      else case literal_search search_term text of
        None \<Rightarrow> None
      | Some (match_start, match_end) \<Rightarrow>
          (let start = max 0 (int match_start - 300);
               end = min (int (length text)) (int match_end + 300);
               context0 = slice text (nat start) (nat end);
               first_period = find_str context0 ''. '';
               context1 = (if first_period > 0 \<and> first_period < 100
                           then drop (nat (first_period + 2)) context0 else context0);
               last_period = rfind context1 ''. '';
               context2 = (if last_period > int (length context1) - 100
                           then take (nat (last_period + 1)) context1 else context1)
           in Some (strip context2)))"

section \<open>The rules arbiter: markdown sections and headings\<close>

datatype error = AttributeError | KeyError | OSError

text \<open>
  The pattern \<open>#+\s*NAME\<close> (case ignored, \<open>NAME\<close> escaped, so literal) tried at the
  start of \<open>s\<close>, in the order of a backtracking matcher: all the hashes and then as
  much whitespace as possible, then less whitespace, then fewer hashes (after which
  the next character is a hash, so \<open>\s*\<close> is empty). The result is the length of the
  match.
\<close>

fun first_some :: "('a \<Rightarrow> 'b option) \<Rightarrow> 'a list \<Rightarrow> 'b option" where
  "first_some f [] = None"
| "first_some f (x # xs) = (case f x of Some y \<Rightarrow> Some y | None \<Rightarrow> first_some f xs)"

definition hashes :: "string \<Rightarrow> nat" where
  "hashes s = length (takeWhile (\<lambda>c. c = CHR ''#'') s)"

definition heading_match_at :: "string \<Rightarrow> string \<Rightarrow> nat option" where
  "heading_match_at section_name s =
     (let h = hashes s
      in if h = 0 then None
         else let wmax = length (takeWhile is_space (drop h s))
              in case first_some
                        (\<lambda>w. if imatch section_name (drop (h + w) s)
                              then Some (h + w + length section_name) else None)
                        (rev [0..<Suc wmax]) of
                   Some l \<Rightarrow> Some l
                 | None \<Rightarrow>
                     first_some
                       (\<lambda>j. if imatch section_name (drop j s)
                             then Some (j + length section_name) else None)
                       (rev [1..<h]))"

fun heading_search_from :: "string \<Rightarrow> string \<Rightarrow> nat \<Rightarrow> (nat \<times> nat) option" where
  "heading_search_from section_name [] i = None"
| "heading_search_from section_name (c # cs) i =
     (case heading_match_at section_name (c # cs) of
        Some l \<Rightarrow> Some (i, i + l)
      | None \<Rightarrow> heading_search_from section_name cs (Suc i))"

text \<open>
  The pattern \<open>^#{1,level}\s\<close> at the start of \<open>s\<close>: between one and \<open>level\<close> hashes,
  then one whitespace character.
\<close>

definition heading_prefix :: "nat \<Rightarrow> string \<Rightarrow> bool" where
  "heading_prefix level s =
     list_ex (\<lambda>j. take j s = replicate j (CHR ''#'') \<and>
                   (case drop j s of [] \<Rightarrow> False | c # _ \<Rightarrow> is_space c))
             (rev [1..<Suc level])"

text \<open>
  Its search with \<open>re.MULTILINE\<close>: \<open>^\<close> holds at the first position of the searched
  string and after every line feed. \<open>bol\<close> says whether the current position is such
  a position; the result is \<open>match.start()\<close>.
\<close>

fun next_heading_from :: "nat \<Rightarrow> bool \<Rightarrow> string \<Rightarrow> nat \<Rightarrow> nat option" where
  "next_heading_from level bol [] i = None"
| "next_heading_from level bol (c # cs) i =
     (if bol \<and> heading_prefix level (c # cs) then Some i
      else next_heading_from level (c = newline) cs (Suc i))"

text \<open>
  \<open>RulesArbiter._extract_section\<close>. \<open>re.match(r'#+', text[start:])\<close> answers \<open>None\<close>
  where the text at \<open>start\<close> has no hash, and \<open>.group()\<close> on \<open>None\<close> raises
  AttributeError.
\<close>

definition extract_section :: "string \<Rightarrow> string \<Rightarrow> error + string option" where
  "extract_section text section_name =
     (case heading_search_from section_name text 0 of
        None \<Rightarrow> Inr None
      | Some (start, match_end) \<Rightarrow>
          (let heading_level = hashes (drop start text)
           in if heading_level = 0 then Inl AttributeError
              else let rest_of_text = drop match_end text;
                       end = (case next_heading_from heading_level True rest_of_text 0 of
                                Some next_start \<Rightarrow> match_end + next_start
                              | None \<Rightarrow> length text)
                   in Inr (Some (strip (slice text start end)))))"

text \<open>
  \<open>RulesArbiter._extract_categories\<close>: \<open>re.findall(r'^#+\s+(.+)$', text, re.MULTILINE)\<close>.
  At a line start the pattern takes all the hashes, then whitespace (line feeds
  included) greedily, giving whitespace back until a character other than a line
  feed follows; the group is the rest of that line. \<open>category_at\<close> answers the group
  and the length of the whole match.
\<close>

definition category_at :: "string \<Rightarrow> (string \<times> nat) option" where
  "category_at s =
     (let h = hashes s
      in if h = 0 then None
         else let wmax = length (takeWhile is_space (drop h s))
              in first_some
                   (\<lambda>w. let title = takeWhile (\<lambda>c. c \<noteq> newline) (drop (h + w) s)
                         in if title \<noteq> [] then Some (title, h + w + length title) else None)
                   (rev [1..<Suc wmax]))"

text \<open>
  \<open>findall\<close> resumes where the last match ended: \<open>skip\<close> counts the characters of the
  last match still to pass.
\<close>

fun categories_from :: "bool \<Rightarrow> nat \<Rightarrow> string \<Rightarrow> string list" where
  "categories_from bol skip [] = []"
| "categories_from bol skip (c # cs) =
     (if skip = 0 \<and> bol
      then (case category_at (c # cs) of
              Some (title, l) \<Rightarrow> title # categories_from (c = newline) (l - 1) cs
            | None \<Rightarrow> categories_from (c = newline) 0 cs)
      else categories_from (c = newline) (skip - 1) cs)"

definition extract_categories :: "string \<Rightarrow> string list" where
  "extract_categories text = categories_from True 0 text"

section \<open>The rules arbiter: keywords\<close>

definition dnd_terms :: "string list" where
  "dnd_terms =
     [''advantage'', ''disadvantage'', ''attack'', ''damage'', ''spell'', ''casting'',
      ''initiative'', ''combat'', ''action'', ''bonus action'', ''reaction'',
      ''saving throw'', ''ability check'', ''skill check'', ''critical'', ''rest'',
      ''concentration'', ''death save'', ''hit points'', ''armor class'']"

text \<open>
  \<open>re.findall(r'"([^"]+)"', text)\<close>: from a double quote, the characters up to the
  next double quote, when there is at least one and the closing quote exists; the
  scan resumes after the closing quote, and one position further when the match
  fails.
\<close>

definition dquote :: char where
  "dquote = CHR 0x22"

function quoted :: "string \<Rightarrow> string list" where
  "quoted [] = []"
| "quoted (c # cs) =
     (if c = dquote
      then (let body = takeWhile (\<lambda>x. x \<noteq> dquote) cs;
                rest = dropWhile (\<lambda>x. x \<noteq> dquote) cs
            in if body \<noteq> [] \<and> rest \<noteq> [] then body # quoted (tl rest) else quoted cs)
      else quoted cs)"
  by pat_completeness auto
termination
proof (relation "measure length")
  fix c :: char and cs body rest :: string
  assume "rest = dropWhile (\<lambda>x. x \<noteq> dquote) cs"
  then have "length (tl rest) \<le> length cs"
    using length_dropWhile_le [of "\<lambda>x. x \<noteq> dquote" cs] by simp
  then show "(tl rest, c # cs) \<in> measure length" by simp
qed simp_all

text \<open>The vocabulary scan of \<open>_extract_keywords\<close>, before the quoted terms are added.\<close>

definition vocabulary_hits :: "string \<Rightarrow> string list" where
  "vocabulary_hits text = filter (\<lambda>term. contains (lower text) term) dnd_terms"

text \<open>\<open>RulesArbiter._extract_keywords\<close>.\<close>

definition extract_keywords :: "string \<Rightarrow> string list" where
  "extract_keywords text =
     (let found_keywords = vocabulary_hits text;
          found_keywords = found_keywords @ take 3 (quoted text)
      in take 5 found_keywords)"

section \<open>The rules arbiter: construction\<close>

text \<open>
  The campaign data is what \<open>CampaignLoader.load_campaign\<close> builds: under \<open>"files"\<close>, a
  key stands either for one file, \<open>{"path": ..., "content": ...}\<close>, or for a
  directory, a dictionary from the relative paths of its \<open>*.md\<close> files to such file
  entries. A dictionary is a map; a key that \<open>.get\<close> reads with a default is an
  optional field.
\<close>

record file_entry =
  path :: string
  content :: string

datatype files_value = FileEntry file_entry | DirEntry "string \<rightharpoonup> file_entry"

record campaign_data =
  name :: "string option"
  files :: "(string \<rightharpoonup> files_value) option"

text \<open>
  \<open>files[key]["content"]\<close>. The keys of a directory entry are paths that end in
  \<open>.md\<close>, never \<open>"content"\<close>, so the subscript raises KeyError there.
\<close>

fun entry_content :: "files_value \<Rightarrow> error + string" where
  "entry_content (FileEntry f) = Inr (content f)"
| "entry_content (DirEntry d) = Inl KeyError"

text \<open>\<open>RulesArbiter._extract_house_rules\<close>, on the campaign data of the arbiter.\<close>

definition extract_house_rules :: "campaign_data \<Rightarrow> error + string" where
  "extract_house_rules cd =
     (let fs = (case files cd of Some m \<Rightarrow> m | None \<Rightarrow> Map.empty)
      in case fs ''houseRules'' of
           Some e \<Rightarrow> entry_content e
         | None \<Rightarrow>
             (case fs ''rules'' of
                Some e \<Rightarrow> entry_content e
              | None \<Rightarrow> Inr []))"

record arbiter =
  campaign_data :: campaign_data
  core_rules :: "string \<rightharpoonup> string"
  campaign_name :: string
  house_rules :: string

text \<open>\<open>RulesArbiter.__init__\<close>: an exception of \<open>_extract_house_rules\<close> leaves no arbiter.\<close>

definition RulesArbiter :: "campaign_data \<Rightarrow> (string \<rightharpoonup> string) \<Rightarrow> error + arbiter" where
  "RulesArbiter cd core =
     (case extract_house_rules cd of
        Inl e \<Rightarrow> Inl e
      | Inr hr \<Rightarrow>
          Inr \<lparr> campaign_data = cd, core_rules = core,
                campaign_name = (case name cd of Some n \<Rightarrow> n | None \<Rightarrow> ''Unknown''),
                house_rules = hr \<rparr>)"

text \<open>\<open>self.core_rules.get("house-rules", "")\<close>, the core text every operation searches.\<close>

definition core_text :: "arbiter \<Rightarrow> string" where
  "core_text self = (case core_rules self ''house-rules'' of Some t \<Rightarrow> t | None \<Rightarrow> [])"

section \<open>The rules arbiter: operations\<close>

record query_result =
  ruleName :: string
  query_context :: string
  coreRule :: "string option"
  houseRule :: "string option"
  recommendation :: "string option"
  sources :: "string list"

text \<open>
  \<open>RulesArbiter.query_rule\<close>. A test such as \<open>if results["houseRule"]:\<close> is Python's
  truth value: the field holds a string that is not empty.
\<close>

definition query_rule :: "arbiter \<Rightarrow> string \<Rightarrow> string \<Rightarrow> query_result" where
  "query_rule self rule_name ctx =
     (let results = \<lparr> ruleName = rule_name, query_context = ctx, coreRule = None,
                       houseRule = None, recommendation = None, sources = [] \<rparr>;
          core_result = search_in_text rule_name (core_text self);
          results = (if truthy core_result
                     then results \<lparr> coreRule := core_result,
                                    sources := sources results @ [''Core Rules''] \<rparr>
                     else results);
          house_result = search_in_text rule_name (house_rules self);
          results = (if truthy house_result
                     then results \<lparr> houseRule := house_result,
                                    sources := sources results @
                                      [campaign_name self @ '' House Rules''] \<rparr>
                     else results)
      in case (if truthy (houseRule results) then houseRule results else None) of
           Some h \<Rightarrow>
             results \<lparr> recommendation :=
               Some (''Use campaign-specific rule: '' @ take 200 h @ ''...'') \<rparr>
         | None \<Rightarrow>
             (case (if truthy (coreRule results) then coreRule results else None) of
                Some c \<Rightarrow>
                  results \<lparr> recommendation :=
                    Some (''Use core rule: '' @ take 200 c @ ''...'') \<rparr>
              | None \<Rightarrow>
                  results \<lparr> recommendation :=
                    Some (''No specific rule found for '' @ [CHR 0x27] @ rule_name @ [CHR 0x27] @
                          ''. Use standard 5e rules or make a ruling.'') \<rparr>))"

text \<open>
  The result of \<open>check_house_rules\<close> is a dictionary whose keys depend on the branch:
  a field is \<open>None\<close> where the dictionary has no such key.
\<close>

record house_rules_result =
  campaign :: string
  category :: "string option"
  rules :: "string option"
  fullRules :: "string option"
  houseRules :: "string option"
  categories :: "string list option"

text \<open>\<open>RulesArbiter.check_house_rules\<close>; \<open>rule_category\<close> is an \<open>Optional[str]\<close>.\<close>

definition check_house_rules :: "arbiter \<Rightarrow> string option \<Rightarrow> error + house_rules_result" where
  "check_house_rules self rule_category =
     (if house_rules self = []
      then Inr \<lparr> campaign = campaign_name self, category = None, rules = None,
                 fullRules = None,
                 houseRules = Some ''No campaign-specific house rules defined. Using core rules.'',
                 categories = Some [] \<rparr>
      else case (if truthy rule_category then rule_category else None) of
             Some cat \<Rightarrow>
               (case extract_section (house_rules self) cat of
                  Inl e \<Rightarrow> Inl e
                | Inr section \<Rightarrow>
                    Inr \<lparr> campaign = campaign_name self, category = Some cat,
                          rules = (if truthy section then section
                                   else Some (''No rules found for category: '' @ cat)),
                          fullRules = Some (house_rules self),
                          houseRules = None, categories = None \<rparr>)
           | None \<Rightarrow>
               Inr \<lparr> campaign = campaign_name self, category = None, rules = None,
                     fullRules = None, houseRules = Some (house_rules self),
                     categories = Some (extract_categories (house_rules self)) \<rparr>)"

record difference =
  aspect :: string
  diff_coreRule :: string
  campaignRule :: string
  useCampaignRule :: bool

record compare_result =
  compared_ruleName :: string
  coreDefined :: bool
  campaignOverride :: bool
  differences :: "difference list"
  compare_recommendation :: string

text \<open>\<open>RulesArbiter.compare_rules\<close>.\<close>

definition compare_rules :: "arbiter \<Rightarrow> string \<Rightarrow> compare_result" where
  "compare_rules self rule_name =
     (let core_search = search_in_text rule_name (core_text self);
          house_search = search_in_text rule_name (house_rules self);
          differences =
            (case (core_search, house_search) of
               (Some c, Some h) \<Rightarrow>
                 (if c \<noteq> [] \<and> h \<noteq> [] \<and> c \<noteq> h
                  then [\<lparr> aspect = rule_name, diff_coreRule = c, campaignRule = h,
                           useCampaignRule = True \<rparr>]
                  else [])
             | _ \<Rightarrow> [])
      in \<lparr> compared_ruleName = rule_name,
           coreDefined = truthy core_search,
           campaignOverride = truthy house_search,
           differences = differences,
           compare_recommendation =
             (if truthy house_search then ''Use campaign rule''
              else if truthy core_search then ''Use core rule'' else ''Use standard 5e'') \<rparr>)"

record related_rule =
  source :: string
  keyword :: string
  rule_text :: string

text \<open>\<open>RulesArbiter._generate_ruling_suggestion\<close>; the situation is not read.\<close>

definition generate_ruling_suggestion :: "string \<Rightarrow> related_rule list \<Rightarrow> string" where
  "generate_ruling_suggestion situation related_rules =
     (if related_rules = []
      then ''No related rules found. Suggest using standard 5e mechanics or making a balanced ruling that favors narrative over mechanics.''
      else (let suggestion = ''Based on related rules:'' @ [newline];
                suggestion = foldl (\<lambda>acc rule. acc @ ''- '' @ source rule @ '': '' @ rule_text rule @
                                                  ''...'' @ [newline])
                                   suggestion (take 2 related_rules)
            in suggestion @ [newline] @
               ''Suggested ruling: Apply the principles above to this situation. Favor rulings that keep the game moving and are fair to all players.''))"

record edge_case_result =
  situation :: string
  relatedRules :: "related_rule list"
  suggestion :: string
  result_note :: string

text \<open>The body of the loop of \<open>resolve_edge_case\<close> for one keyword.\<close>

definition related_for :: "arbiter \<Rightarrow> string \<Rightarrow> related_rule list" where
  "related_for self kw =
     (let core = search_in_text kw (core_text self);
          house = search_in_text kw (house_rules self)
      in (case core of
            Some c \<Rightarrow> (if c \<noteq> []
                        then [\<lparr> source = ''Core Rules'', keyword = kw, rule_text = take 150 c \<rparr>]
                        else [])
          | None \<Rightarrow> []) @
         (case house of
            Some h \<Rightarrow> (if h \<noteq> []
                        then [\<lparr> source = ''House Rules'', keyword = kw, rule_text = take 150 h \<rparr>]
                        else [])
          | None \<Rightarrow> []))"

text \<open>\<open>RulesArbiter.resolve_edge_case\<close>.\<close>

definition resolve_edge_case :: "arbiter \<Rightarrow> string \<Rightarrow> edge_case_result" where
  "resolve_edge_case self sit =
     (let keywords = extract_keywords sit;
          related_rules = foldl (\<lambda>acc kw. acc @ related_for self kw) [] keywords
      in \<lparr> situation = sit,
           relatedRules = related_rules,
           suggestion = generate_ruling_suggestion sit related_rules,
           result_note = ''This is a suggested ruling. DM has final authority.'' \<rparr>)"

section \<open>The campaign loader and the server's state\<close>

text \<open>
  \<open>config.json\<close> as far as switching reads it: the configured campaigns by
  identifier, and the optional key \<open>"activeCampaign"\<close>. The key \<open>"campaigns"\<close> is
  taken to be there, as in every configuration whose campaigns can be listed.
\<close>

record campaign_config =
  display_name :: string
  campaign_type :: string

record config =
  campaigns :: "string \<rightharpoonup> campaign_config"
  activeCampaign :: "string option"

text \<open>A \<open>CampaignLoader\<close> object, and the configuration file it writes.\<close>

record loader =
  loader_config :: config
  active_campaign_name :: string

record disk =
  config_file :: config
  writable :: bool

text \<open>\<open>CampaignLoader.__init__\<close>, given the parsed configuration file.\<close>

definition CampaignLoader :: "config \<Rightarrow> loader" where
  "CampaignLoader cfg =
     \<lparr> loader_config = cfg,
       active_campaign_name = (case activeCampaign cfg of Some n \<Rightarrow> n | None \<Rightarrow> ''fragments'') \<rparr>"

text \<open>
  \<open>CampaignLoader.switch_campaign\<close>: the answer, the loader and the disk afterwards.
  Opening the file for writing raises OSError where the file cannot be written; the
  two assignments before it have happened by then.
\<close>

definition switch_campaign :: "loader \<Rightarrow> disk \<Rightarrow> string \<Rightarrow> (error + bool) \<times> loader \<times> disk" where
  "switch_campaign self d cname =
     (if campaigns (loader_config self) cname = None then (Inr False, self, d)
      else (let self = self \<lparr> active_campaign_name := cname \<rparr>;
                self = self \<lparr> loader_config :=
                         (loader_config self) \<lparr> activeCampaign := Some cname \<rparr> \<rparr>
            in if writable d
               then (Inr True, self, d \<lparr> config_file := loader_config self \<rparr>)
               else (Inl OSError, self, d)))"

text \<open>The module's globals, with the disk the loader writes to.\<close>

record server =
  campaign_loader :: loader
  current_campaign :: campaign_data
  server_core_rules :: "string \<rightharpoonup> string"
  rules_arbiter :: arbiter
  server_disk :: disk

text \<open>
  The text a tool call answers. The two answers of \<open>switch_campaign\<close> start with a
  check mark and a cross, outside the character range of the model, so they are
  constructors: \<open>Switched n\<close> is "Switched to campaign: n", \<open>CampaignNotFound n\<close> is
  "Campaign not found: n", and \<open>ErrorText e\<close> is the answer of the handler that
  catches every exception.
\<close>

datatype tool_response =
  Switched string | CampaignNotFound string | ErrorText error | PlainText string

text \<open>
  The branch \<open>name == "switch_campaign"\<close> of \<open>call_tool\<close>. \<open>load_campaign\<close> stands for
  \<open>CampaignLoader.load_campaign\<close>, which reads the campaign's directory tree. Each
  global is assigned when its right-hand side has been computed, so an exception
  keeps the assignments made before it.
\<close>

definition call_tool_switch_campaign ::
  "(loader \<Rightarrow> error + campaign_data) \<Rightarrow> server \<Rightarrow> string \<Rightarrow> tool_response \<times> server" where
  "call_tool_switch_campaign load_campaign st cname =
     (case switch_campaign (campaign_loader st) (server_disk st) cname of
        (Inl e, l, d) \<Rightarrow> (ErrorText e, st \<lparr> campaign_loader := l, server_disk := d \<rparr>)
      | (Inr success, l, d) \<Rightarrow>
          (let st = st \<lparr> campaign_loader := l, server_disk := d \<rparr>
           in if success
              then (case load_campaign l of
                      Inl e \<Rightarrow> (ErrorText e, st)
                    | Inr cc \<Rightarrow>
                        (let st = st \<lparr> current_campaign := cc \<rparr>
                         in case RulesArbiter cc (server_core_rules st) of
                              Inl e \<Rightarrow> (ErrorText e, st)
                            | Inr a \<Rightarrow>
                                (let st = st \<lparr> rules_arbiter := a \<rparr>
                                 in case name cc of
                                      None \<Rightarrow> (ErrorText KeyError, st)
                                    | Some n \<Rightarrow> (Switched n, st))))
              else (CampaignNotFound cname, st)))"

text \<open>The branch \<open>name == "query_rule"\<close> of \<open>call_tool\<close>, with the text it renders.\<close>

definition call_tool_query_rule :: "server \<Rightarrow> string \<Rightarrow> string \<Rightarrow> tool_response" where
  "call_tool_query_rule st rule_name ctx =
     (let result = query_rule (rules_arbiter st) rule_name ctx;
          output = ''# Rule: '' @ ruleName result @ [newline, newline];
          output = (case houseRule result of
                      Some h \<Rightarrow> (if h \<noteq> []
                                  then output @ ''## Campaign House Rule'' @ [newline] @ h @
                                       [newline, newline]
                                  else output)
                    | None \<Rightarrow> output);
          output = (case coreRule result of
                      Some c \<Rightarrow> (if c \<noteq> []
                                  then output @ ''## Core Rule'' @ [newline] @ c @
                                       [newline, newline]
                                  else output)
                    | None \<Rightarrow> output);
          output = output @ ''## Recommendation'' @ [newline] @
                   (case recommendation result of Some r \<Rightarrow> r | None \<Rightarrow> ''None'') @ [newline]
      in PlainText output)"

section \<open>A small campaign, for the concrete instances\<close>

definition example_core_rules :: "string \<rightharpoonup> string" where
  "example_core_rules = [''house-rules'' \<mapsto> ''Intro. Use bonus action rules. Ok'']"

definition example_campaign :: campaign_data where
  "example_campaign =
     \<lparr> name = Some ''Fragments'',
       files = Some [''rules'' \<mapsto> FileEntry \<lparr> path = ''fragments/rules.md'',
                                               content = ''Intro. Bonus action is free. Ok'' \<rparr>] \<rparr>"

definition example_arbiter :: arbiter where
  "example_arbiter =
     \<lparr> campaign_data = example_campaign, core_rules = example_core_rules,
       campaign_name = ''Fragments'', house_rules = ''Intro. Bonus action is free. Ok'' \<rparr>"

text \<open>A campaign without house rules.\<close>

definition bare_campaign :: campaign_data where
  "bare_campaign =
     \<lparr> name = Some ''Bare'',
       files = Some [''info'' \<mapsto> FileEntry \<lparr> path = ''bare/campaign-info.md'',
                                              content = ''A bare campaign.'' \<rparr>] \<rparr>"

definition bare_arbiter :: arbiter where
  "bare_arbiter =
     \<lparr> campaign_data = bare_campaign, core_rules = example_core_rules,
       campaign_name = ''Bare'', house_rules = [] \<rparr>"

text \<open>An arbiter whose core text is one short line without a sentence terminator.\<close>

definition terse_arbiter :: arbiter where
  "terse_arbiter =
     \<lparr> campaign_data = example_campaign,
       core_rules = [''house-rules'' \<mapsto> ''Bonus action: one per turn''],
       campaign_name = ''Fragments'', house_rules = ''Intro. Bonus action is free. Ok'' \<rparr>"



definition example_config :: config where
  "example_config =
     \<lparr> campaigns = [''fragments'' \<mapsto> \<lparr> display_name = ''Fragments'', campaign_type = ''legacy'' \<rparr>],
       activeCampaign = Some ''fragments'' \<rparr>"

definition example_server :: server where
  "example_server =
     \<lparr> campaign_loader = CampaignLoader example_config,
       current_campaign = example_campaign,
       server_core_rules = example_core_rules,
       rules_arbiter = example_arbiter,
       server_disk = \<lparr> config_file = example_config, writable = True \<rparr> \<rparr>"

section \<open>Shared lemmas\<close>

lemma literal_search_None: "literal_search pat txt = None \<Longrightarrow> search_in_text pat txt = None"
  by (simp add: search_in_text_def)

lemma foldl_append_concat: "foldl (\<lambda>acc x. acc @ f x) acc xs = acc @ concat (map f xs)"
  by (induction xs arbitrary: acc) simp_all

lemma heading_match_hashes: "heading_match_at nm s = Some l \<Longrightarrow> 0 < hashes s"
  by (auto simp: heading_match_at_def Let_def split: if_splits)

lemma heading_search_hashes:
  "heading_search_from nm s i = Some (st, e) \<Longrightarrow> i \<le> st \<and> 0 < hashes (drop (st - i) s)"
proof (induction s arbitrary: i)
  case Nil
  then show ?case by simp
next
  case (Cons c cs)
  show ?case
  proof (cases "heading_match_at nm (c # cs)")
    case None
    with Cons.prems have "heading_search_from nm cs (Suc i) = Some (st, e)" by simp
    from Cons.IH [OF this] have "Suc i \<le> st" and "0 < hashes (drop (st - Suc i) cs)"
      by simp_all
    moreover from \<open>Suc i \<le> st\<close> have "drop (st - i) (c # cs) = drop (st - Suc i) cs"
      by (simp add: Suc_diff_le drop_Cons')
    ultimately show ?thesis by simp
  next
    case (Some l)
    with Cons.prems have "st = i" by simp
    with Some show ?thesis by (simp add: heading_match_hashes)
  qed
qed

section \<open>Text search: the excerpt of a matching text\<close>

lemma rfind_from_not_found: "find_from sub s i = -1 \<Longrightarrow> rfind_from sub s i = -1"
proof (induction s arbitrary: i)
  case Nil
  then show ?case by (simp split: if_splits)
next
  case (Cons c cs)
  from Cons.prems have no: "\<not> startswith (c # cs) sub"
    and rest: "find_from sub cs (Suc i) = -1"
    by (auto split: if_splits)
  from Cons.IH [OF rest] no show ?case by simp
qed

lemma literal_search_from_bounds:
  "literal_search_from pat s i = Some (ms, me) \<Longrightarrow>
   i \<le> ms \<and> ms \<le> i + length s \<and> me = ms + length pat"
proof (induction s arbitrary: i)
  case Nil
  then show ?case by (simp split: if_splits)
next
  case (Cons c cs)
  show ?case
  proof (cases "imatch pat (c # cs)")
    case True
    with Cons.prems show ?thesis by simp
  next
    case False
    with Cons.prems have "literal_search_from pat cs (Suc i) = Some (ms, me)" by simp
    from Cons.IH [OF this] show ?thesis by simp
  qed
qed

text \<open>
  What the two instances below are instances of: a text of fewer than 99 characters
  without \<open>". "\<close> gives the empty excerpt for every term it contains.
\<close>

lemma search_in_text_short_without_terminator:
  assumes "search_term \<noteq> []"
    and "literal_search search_term doc = Some (ms, me)"
    and "length doc < 99"
    and "find_str doc ''. '' = -1"
  shows "search_in_text search_term doc = Some []"
proof -
  from assms(2) have b: "ms \<le> length doc" "me = ms + length search_term"
    using literal_search_from_bounds [of search_term doc 0 ms me]
    by (simp_all add: literal_search_def)
  from assms(1,2) have ne: "doc \<noteq> []"
    by (auto simp: literal_search_def)
  from b assms(3)
  have w: "slice doc (nat (max 0 (int ms - 300)))
             (nat (min (int (length doc)) (int me + 300))) = doc"
    by (simp add: slice_def)
  from assms(4) have r: "rfind doc ''. '' = -1"
    by (simp add: find_str_def rfind_def rfind_from_not_found)
  from assms(1,2,3,4) ne w r show ?thesis
    by (simp add: search_in_text_def Let_def strip_def)
qed

text \<open>
  C1. The claim: for a term that is not empty and a text that contains it, whatever
  the case, \<open>_search_in_text\<close> answers an excerpt that contains an occurrence of the
  term, and an empty excerpt only without a match. The text \<open>advantage\<close> contains the
  term \<open>advantage\<close> (the match is at 0 to 9), and the answer is the empty string:
  \<open>rfind\<close> answers \<open>-1\<close> for a window without \<open>". "\<close>, the window has 9 characters and
  \<open>-1 > 9 - 100\<close>, so the window is cut to its first \<open>-1 + 1 = 0\<close> characters.
\<close>

theorem search_in_text_loses_match:
  "literal_search ''advantage'' ''advantage'' = Some (0, 9) \<and>
   search_in_text ''advantage'' ''advantage'' = Some []"
  by code_simp

text \<open>
  C7. The claim: the leading trim drops the window up to and including the first
  \<open>". "\<close> when one lies in the first 100 characters, the trailing trim cuts the
  window after the last \<open>". "\<close> when one lies in the last 100 characters, and each
  trim applies only when its terminator exists. The text below, which is its own
  window, has no \<open>". "\<close> at all (\<open>find\<close> and \<open>rfind\<close> both answer \<open>-1\<close>), and the
  trailing trim applies all the same: the excerpt is empty, where the claim leaves
  the 39 characters of the window untouched.
\<close>

theorem search_in_text_trims_without_terminator:
  "find_str ''Advantage: roll twice, take the higher.'' ''. '' = -1 \<and>
   rfind ''Advantage: roll twice, take the higher.'' ''. '' = -1 \<and>
   search_in_text ''advantage'' ''Advantage: roll twice, take the higher.'' = Some []"
  by code_simp

section \<open>Rule lookup\<close>

text \<open>
  C2. Whenever \<open>query_rule\<close> populates both the house-rule and the core-rule field,
  the recommendation is the preview of the house-rule excerpt (its first 200
  characters); and a recommendation of the core excerpt means that the house-rule
  field is absent while the core-rule field holds the excerpt previewed.
\<close>

theorem query_rule_prefers_house_rule:
  "(houseRule (query_rule a n c) = Some h \<and> coreRule (query_rule a n c) = Some k \<longrightarrow>
      recommendation (query_rule a n c) =
        Some (''Use campaign-specific rule: '' @ take 200 h @ ''...'')) \<and>
   (recommendation (query_rule a n c) = Some (''Use core rule: '' @ x) \<longrightarrow>
      houseRule (query_rule a n c) = None \<and>
      (\<exists>k. coreRule (query_rule a n c) = Some k \<and> x = take 200 k @ ''...''))"
  by (cases "search_in_text n (core_text a)"; cases "search_in_text n (house_rules a)")
     (auto simp: query_rule_def Let_def)

theorem query_rule_prefers_house_rule_witness:
  "houseRule (query_rule example_arbiter ''bonus action'' []) = Some ''Bonus action is free.'' \<and>
   coreRule (query_rule example_arbiter ''bonus action'' []) = Some ''Use bonus action rules.'' \<and>
   recommendation (query_rule example_arbiter ''bonus action'' []) =
     Some ''Use campaign-specific rule: Bonus action is free....'' \<and>
   recommendation (query_rule bare_arbiter ''bonus action'' []) =
     Some ''Use core rule: Use bonus action rules....'' \<and>
   houseRule (query_rule bare_arbiter ''bonus action'' []) = None"
proof -
  have h: "houseRule (query_rule example_arbiter ''bonus action'' []) = Some ''Bonus action is free.''"
    by code_simp
  have k: "coreRule (query_rule example_arbiter ''bonus action'' []) = Some ''Use bonus action rules.''"
    by code_simp
  have r: "recommendation (query_rule bare_arbiter ''bonus action'' []) =
             Some (''Use core rule: '' @ ''Use bonus action rules....'')"
    by code_simp
  from h k
    query_rule_prefers_house_rule [of example_arbiter "''bonus action''" "[]"
      "''Bonus action is free.''" "''Use bonus action rules.''" "[]"]
  have "recommendation (query_rule example_arbiter ''bonus action'' []) =
          Some ''Use campaign-specific rule: Bonus action is free....''"
    by simp
  moreover from r
    query_rule_prefers_house_rule [of bare_arbiter "''bonus action''" "[]" "[]" "[]"
      "''Use bonus action rules....''"]
  have "houseRule (query_rule bare_arbiter ''bonus action'' []) = None"
    by blast
  ultimately show ?thesis using h k r by simp
qed

section \<open>Sections of a markdown text\<close>

lemma extract_section_nested_example:
  "extract_section
     (''# Combat'' @ [newline] @ ''Flanking grants advantage.'' @ [newline] @
      ''## Grappling'' @ [newline] @ ''Contested check.'' @ [newline] @
      ''# Magic'' @ [newline] @ ''Spells.'') ''Combat'' =
   Inr (Some (''# Combat'' @ [newline] @ ''Flanking grants advantage.'' @ [newline] @
              ''## Grappling'' @ [newline] @ ''Contested check.''))"
  by code_simp

text \<open>
  The search for the next heading treats the first position after the match as a
  line start. That changes its answer only when the matched name is directly
  followed by hashes and a whitespace character.
\<close>

lemma next_heading_from_first_position:
  "\<not> heading_prefix level s \<Longrightarrow>
   next_heading_from level True s i = next_heading_from level False s i"
  by (cases s) simp_all

lemma extract_section_line_starts:
  assumes "heading_search_from nm doc 0 = Some (st, e)"
    and "\<not> heading_prefix (hashes (drop st doc)) (drop e doc)"
  shows "extract_section doc nm =
           Inr (Some (strip (slice doc st
             (case next_heading_from (hashes (drop st doc)) False (drop e doc) 0 of
                Some p \<Rightarrow> e + p
              | None \<Rightarrow> length doc))))"
proof -
  from assms(1) heading_search_hashes [of nm doc 0 st e] have "0 < hashes (drop st doc)"
    by simp
  with assms show ?thesis
    by (simp add: extract_section_def Let_def next_heading_from_first_position)
qed

text \<open>
  C3. The claim: the section of a matched heading of depth \<open>d\<close> runs from the start of
  the heading to the start of the next heading of depth at most \<open>d\<close>, or to the end
  of the text. The text below has one heading line, \<open># C# Basics\<close>, and a body;
  the name \<open>C\<close> matches \<open># C\<close> at 0 to 3. The search for the next heading runs on the
  slice \<open>text[3:]\<close>, where \<open>^\<close> also holds at the first position, in the middle of the
  heading line: the section ends there and is \<open># C\<close>. Searched with that position
  known not to start a line, the rest of the text has no heading, and the section of
  the claim is the whole text.
\<close>

theorem extract_section_cuts_heading_line:
  "extract_section (''# C# Basics'' @ [newline] @ ''Use it.'') ''C'' = Inr (Some ''# C'') \<and>
   heading_search_from ''C'' (''# C# Basics'' @ [newline] @ ''Use it.'') 0 = Some (0, 3) \<and>
   next_heading_from 1 False (drop 3 (''# C# Basics'' @ [newline] @ ''Use it.'')) 0 = None"
  by code_simp

section \<open>Comparison of core and campaign rules\<close>

text \<open>
  What the code computes: at most one entry, and one exactly when both search
  results are strings that are not empty and differ. Both flags are the truth values
  of the search results.
\<close>

lemma compare_rules_differences_found:
  "length (differences (compare_rules a n)) \<le> 1 \<and>
   (length (differences (compare_rules a n)) = 1 \<longleftrightarrow>
      truthy (search_in_text n (core_text a)) \<and> truthy (search_in_text n (house_rules a)) \<and>
      search_in_text n (core_text a) \<noteq> search_in_text n (house_rules a)) \<and>
   (search_in_text n (core_text a) = search_in_text n (house_rules a) \<longrightarrow>
      differences (compare_rules a n) = []) \<and>
   coreDefined (compare_rules a n) = truthy (search_in_text n (core_text a)) \<and>
   campaignOverride (compare_rules a n) = truthy (search_in_text n (house_rules a))"
  by (auto simp: compare_rules_def Let_def split: option.splits)

text \<open>
  C4. The claim: the differences list of \<open>compare_rules\<close> has 0 or 1 entries, and 1
  exactly when both searches return a present excerpt and the two excerpts are not
  identical. Below, both texts contain the term \<open>bonus action\<close> (the core text at 0
  to 12, the house rules at 7 to 19) and both searches return a string, not \<open>None\<close>.
  The two strings differ: the core one is empty, cut to nothing by the trailing trim
  of \<open>_search_in_text\<close> since the core text has 26 characters and no \<open>". "\<close>, and the
  house one is \<open>Bonus action is free.\<close> The claim gives one difference; the code tests
  the truth value of the empty string, records none and reports the rule as not
  defined in the core.
\<close>

theorem compare_rules_misses_difference:
  "literal_search ''bonus action'' (core_text terse_arbiter) = Some (0, 12) \<and>
   literal_search ''bonus action'' (house_rules terse_arbiter) = Some (7, 19) \<and>
   search_in_text ''bonus action'' (core_text terse_arbiter) = Some [] \<and>
   search_in_text ''bonus action'' (house_rules terse_arbiter) = Some ''Bonus action is free.'' \<and>
   differences (compare_rules terse_arbiter ''bonus action'') = [] \<and>
   coreDefined (compare_rules terse_arbiter ''bonus action'') = False"
  by code_simp

section \<open>Keywords\<close>

text \<open>
  C5. \<open>_extract_keywords\<close> answers at most 5 entries: the first 5 hits of the
  vocabulary scan, followed by the entries that the quoted-phrase step contributes,
  which are a prefix of the quoted phrases of the text and at most 3.
\<close>

theorem extract_keywords_bounds:
  "length (extract_keywords txt) \<le> 5 \<and>
   extract_keywords txt =
     take 5 (vocabulary_hits txt) @
     take (5 - length (vocabulary_hits txt)) (take 3 (quoted txt)) \<and>
   length (take (5 - length (vocabulary_hits txt)) (take 3 (quoted txt))) \<le> 3"
proof (intro conjI)
  show "length (extract_keywords txt) \<le> 5"
    by (simp add: extract_keywords_def Let_def)
  show "extract_keywords txt =
          take 5 (vocabulary_hits txt) @
          take (5 - length (vocabulary_hits txt)) (take 3 (quoted txt))"
    by (simp add: extract_keywords_def Let_def)
  show "length (take (5 - length (vocabulary_hits txt)) (take 3 (quoted txt))) \<le> 3"
    by (simp add: min_def)
qed

section \<open>Edge cases\<close>

text \<open>
  The suggestion that \<open>resolve_edge_case\<close> answers does not end with the sentence
  about the DM's final authority, neither when related rules were found (the first
  situation, which mentions a bonus action) nor when none were (the second).
\<close>

theorem suggestion_lacks_disclaimer:
  "\<not> endswith (suggestion (resolve_edge_case example_arbiter
        ''Can a player use a bonus action to drink a potion while grappled?''))
      ''DM has final authority.'' \<and>
   \<not> endswith (suggestion (resolve_edge_case example_arbiter ''Can a player swim?''))
      ''DM has final authority.''"
  by code_simp

text \<open>
  C6, as amended. For every situation, the sentence about the DM's final authority
  is the separate field \<open>note\<close> of the result of \<open>resolve_edge_case\<close>, not the end of
  the field \<open>suggestion\<close>. The related rules are the entries of the keywords in
  keyword order. The suggestion is the fixed fallback text when there are none;
  otherwise it is the line "Based on related rules:", one line for each of the first
  2 related rules in that order, and the closing sentence that starts "Suggested
  ruling:".
\<close>

theorem resolve_edge_case_suggestion:
  "result_note (resolve_edge_case a s) = ''This is a suggested ruling. DM has final authority.'' \<and>
   relatedRules (resolve_edge_case a s) = concat (map (related_for a) (extract_keywords s)) \<and>
   suggestion (resolve_edge_case a s) =
     (if relatedRules (resolve_edge_case a s) = []
      then ''No related rules found. Suggest using standard 5e mechanics or making a balanced ruling that favors narrative over mechanics.''
      else ''Based on related rules:'' @ [newline] @
           concat (map (\<lambda>rule. ''- '' @ source rule @ '': '' @ rule_text rule @ ''...'' @ [newline])
                       (take 2 (relatedRules (resolve_edge_case a s)))) @
           [newline] @
           ''Suggested ruling: Apply the principles above to this situation. Favor rulings that keep the game moving and are fair to all players.'')"
  by (simp add: resolve_edge_case_def generate_ruling_suggestion_def Let_def
        foldl_append_concat del: append_assoc)

section \<open>Switching the campaign\<close>

text \<open>
  C8. For a campaign identifier that is not among the configured campaigns,
  \<open>switch_campaign\<close> answers \<open>False\<close> and changes neither the loader nor the
  configuration file, and the tool call answers "Campaign not found" and leaves the
  whole state of the server as it was: the active campaign, the persisted
  configuration, the current campaign and the arbiter. A \<open>query_rule\<close> call after it
  answers what it answered before.
\<close>

theorem switch_campaign_unknown:
  assumes "cname \<notin> dom (campaigns (loader_config (campaign_loader st)))"
  shows "switch_campaign (campaign_loader st) (server_disk st) cname =
           (Inr False, campaign_loader st, server_disk st) \<and>
         call_tool_switch_campaign load_campaign st cname = (CampaignNotFound cname, st) \<and>
         call_tool_query_rule (snd (call_tool_switch_campaign load_campaign st cname)) rule ctx =
           call_tool_query_rule st rule ctx"
proof -
  from assms have unknown: "campaigns (loader_config (campaign_loader st)) cname = None"
    by (simp add: domIff)
  then have sw: "switch_campaign (campaign_loader st) (server_disk st) cname =
                   (Inr False, campaign_loader st, server_disk st)"
    by (simp add: switch_campaign_def)
  then have "call_tool_switch_campaign load_campaign st cname = (CampaignNotFound cname, st)"
    by (simp add: call_tool_switch_campaign_def)
  with sw show ?thesis by simp
qed

theorem switch_campaign_unknown_witness:
  "''nowhere'' \<notin> dom (campaigns (loader_config (campaign_loader example_server))) \<and>
   call_tool_switch_campaign (\<lambda>l. Inl KeyError) example_server ''nowhere'' =
     (CampaignNotFound ''nowhere'', example_server) \<and>
   call_tool_query_rule
     (snd (call_tool_switch_campaign (\<lambda>l. Inl KeyError) example_server ''nowhere''))
     ''bonus action'' [] =
   call_tool_query_rule example_server ''bonus action'' []"
proof -
  have h: "''nowhere'' \<notin> dom (campaigns (loader_config (campaign_loader example_server)))"
    by (simp add: example_server_def CampaignLoader_def example_config_def)
  from switch_campaign_unknown [OF h, of "\<lambda>l. Inl KeyError" "''bonus action''" "[]"] h
  show ?thesis by simp
qed

section \<open>The operations never raise\<close>

lemma extract_section_no_error: "\<exists>r. extract_section txt nm = Inr r"
proof (cases "heading_search_from nm txt 0")
  case None
  then show ?thesis by (simp add: extract_section_def)
next
  case (Some p)
  obtain st e where p: "p = (st, e)" by (cases p)
  from Some p heading_search_hashes [of nm "txt" 0 st e] have "0 < hashes (drop st txt)"
    by simp
  with Some p show ?thesis by (simp add: extract_section_def Let_def)
qed

lemma check_house_rules_no_error: "\<exists>r. check_house_rules a cat = Inr r"
proof (cases "house_rules a \<noteq> [] \<and> truthy cat")
  case True
  then obtain k where k: "cat = Some k" by (cases cat) auto
  obtain sec where "extract_section (house_rules a) k = Inr sec"
    using extract_section_no_error by blast
  with True k show ?thesis by (simp add: check_house_rules_def)
next
  case False
  then show ?thesis by (auto simp: check_house_rules_def)
qed

lemma related_for_unmatched:
  "literal_search kw (core_text a) = None \<Longrightarrow> literal_search kw (house_rules a) = None \<Longrightarrow>
   related_for a kw = []"
  by (simp add: related_for_def literal_search_None)

text \<open>
  C9. Each of the four operations returns a result and never raises. \<open>query_rule\<close>,
  \<open>compare_rules\<close> and \<open>resolve_edge_case\<close> are total functions with no error value:
  each subscript and slice in them is guarded by the truth test of the value it
  reads, and every scan they run is a terminating recursion over the text.
  \<open>check_house_rules\<close> has one raising branch, \<open>.group()\<close> on a failed \<open>re.match\<close> in
  \<open>_extract_section\<close>, and never takes it. A query that matches nothing is a normal
  result: absent fields and the "No specific rule found" recommendation, false
  flags and "Use standard 5e", the "No rules found for category" message, an empty
  list of related rules with the fallback suggestion.
\<close>

theorem resolver_operations_total:
  "(\<exists>r. check_house_rules a cat = Inr r) \<and>
   (literal_search n (core_text a) = None \<and> literal_search n (house_rules a) = None \<longrightarrow>
      query_rule a n ctx =
        \<lparr> ruleName = n, query_context = ctx, coreRule = None, houseRule = None,
          recommendation = Some (''No specific rule found for '' @ [CHR 0x27] @ n @ [CHR 0x27] @
                                 ''. Use standard 5e rules or make a ruling.''),
          sources = [] \<rparr> \<and>
      compare_rules a n =
        \<lparr> compared_ruleName = n, coreDefined = False, campaignOverride = False,
          differences = [], compare_recommendation = ''Use standard 5e'' \<rparr>) \<and>
   (house_rules a \<noteq> [] \<and> k \<noteq> [] \<and> heading_search_from k (house_rules a) 0 = None \<longrightarrow>
      check_house_rules a (Some k) =
        Inr \<lparr> campaign = campaign_name a, category = Some k,
              rules = Some (''No rules found for category: '' @ k),
              fullRules = Some (house_rules a), houseRules = None, categories = None \<rparr>) \<and>
   ((\<forall>kw \<in> set (extract_keywords s).
        literal_search kw (core_text a) = None \<and> literal_search kw (house_rules a) = None) \<longrightarrow>
      resolve_edge_case a s =
        \<lparr> situation = s, relatedRules = [],
          suggestion = ''No related rules found. Suggest using standard 5e mechanics or making a balanced ruling that favors narrative over mechanics.'',
          result_note = ''This is a suggested ruling. DM has final authority.'' \<rparr>)"
proof (intro conjI impI)
  show "\<exists>r. check_house_rules a cat = Inr r"
    by (rule check_house_rules_no_error)
next
  assume "literal_search n (core_text a) = None \<and> literal_search n (house_rules a) = None"
  then have *: "search_in_text n (core_text a) = None" "search_in_text n (house_rules a) = None"
    by (simp_all add: literal_search_None)
  show "query_rule a n ctx =
        \<lparr> ruleName = n, query_context = ctx, coreRule = None, houseRule = None,
          recommendation = Some (''No specific rule found for '' @ [CHR 0x27] @ n @ [CHR 0x27] @
                                 ''. Use standard 5e rules or make a ruling.''),
          sources = [] \<rparr>"
    using * by (simp add: query_rule_def)
  show "compare_rules a n =
        \<lparr> compared_ruleName = n, coreDefined = False, campaignOverride = False,
          differences = [], compare_recommendation = ''Use standard 5e'' \<rparr>"
    using * by (simp add: compare_rules_def)
next
  assume "house_rules a \<noteq> [] \<and> k \<noteq> [] \<and> heading_search_from k (house_rules a) 0 = None"
  then show "check_house_rules a (Some k) =
        Inr \<lparr> campaign = campaign_name a, category = Some k,
              rules = Some (''No rules found for category: '' @ k),
              fullRules = Some (house_rules a), houseRules = None, categories = None \<rparr>"
    by (simp add: check_house_rules_def extract_section_def)
next
  assume "\<forall>kw \<in> set (extract_keywords s).
        literal_search kw (core_text a) = None \<and> literal_search kw (house_rules a) = None"
  then have "concat (map (related_for a) (extract_keywords s)) = []"
    by (simp add: related_for_unmatched)
  then show "resolve_edge_case a s =
        \<lparr> situation = s, relatedRules = [],
          suggestion = ''No related rules found. Suggest using standard 5e mechanics or making a balanced ruling that favors narrative over mechanics.'',
          result_note = ''This is a suggested ruling. DM has final authority.'' \<rparr>"
    by (simp add: resolve_edge_case_def generate_ruling_suggestion_def Let_def
          foldl_append_concat)
qed

theorem resolver_operations_total_witness:
  "literal_search ''grapple'' (core_text example_arbiter) = None \<and>
   literal_search ''grapple'' (house_rules example_arbiter) = None \<and>
   house_rules example_arbiter \<noteq> [] \<and>
   heading_search_from ''Magic'' (house_rules example_arbiter) 0 = None \<and>
   extract_keywords ''I attack'' = [''attack''] \<and>
   literal_search ''attack'' (core_text example_arbiter) = None \<and>
   literal_search ''attack'' (house_rules example_arbiter) = None \<and>
   (\<exists>r. check_house_rules example_arbiter None = Inr r) \<and>
   recommendation (query_rule example_arbiter ''grapple'' []) =
     Some (''No specific rule found for '' @ [CHR 0x27] @ ''grapple'' @ [CHR 0x27] @
           ''. Use standard 5e rules or make a ruling.'') \<and>
   compare_recommendation (compare_rules example_arbiter ''grapple'') = ''Use standard 5e'' \<and>
   rules (projr (check_house_rules example_arbiter (Some ''Magic''))) =
     Some ''No rules found for category: Magic'' \<and>
   relatedRules (resolve_edge_case example_arbiter ''I attack'') = []"
proof -
  have h1: "literal_search ''grapple'' (core_text example_arbiter) = None \<and>
            literal_search ''grapple'' (house_rules example_arbiter) = None"
    by code_simp
  have h2: "house_rules example_arbiter \<noteq> [] \<and> ''Magic'' \<noteq> [] \<and>
            heading_search_from ''Magic'' (house_rules example_arbiter) 0 = None"
    by code_simp
  have kws: "extract_keywords ''I attack'' = [''attack'']"
    by code_simp
  have h3: "\<forall>kw \<in> set (extract_keywords ''I attack'').
              literal_search kw (core_text example_arbiter) = None \<and>
              literal_search kw (house_rules example_arbiter) = None"
    by code_simp
  note t = resolver_operations_total [where a = example_arbiter and cat = None
      and n = "''grapple''" and ctx = "[]" and k = "''Magic''" and s = "''I attack''"]
  from t have "\<exists>r. check_house_rules example_arbiter None = Inr r"
    by blast
  moreover from t h1 have
    "query_rule example_arbiter ''grapple'' [] =
       \<lparr> ruleName = ''grapple'', query_context = [], coreRule = None, houseRule = None,
         recommendation = Some (''No specific rule found for '' @ [CHR 0x27] @ ''grapple'' @
                                [CHR 0x27] @ ''. Use standard 5e rules or make a ruling.''),
         sources = [] \<rparr>"
    and "compare_rules example_arbiter ''grapple'' =
       \<lparr> compared_ruleName = ''grapple'', coreDefined = False, campaignOverride = False,
         differences = [], compare_recommendation = ''Use standard 5e'' \<rparr>"
    by blast+
  moreover from t h2 have
    "check_house_rules example_arbiter (Some ''Magic'') =
       Inr \<lparr> campaign = campaign_name example_arbiter, category = Some ''Magic'',
             rules = Some (''No rules found for category: '' @ ''Magic''),
             fullRules = Some (house_rules example_arbiter), houseRules = None,
             categories = None \<rparr>"
    by blast
  moreover from t h3 have
    "resolve_edge_case example_arbiter ''I attack'' =
       \<lparr> situation = ''I attack'', relatedRules = [],
         suggestion = ''No related rules found. Suggest using standard 5e mechanics or making a balanced ruling that favors narrative over mechanics.'',
         result_note = ''This is a suggested ruling. DM has final authority.'' \<rparr>"
    by blast
  moreover have "literal_search ''attack'' (core_text example_arbiter) = None \<and>
                 literal_search ''attack'' (house_rules example_arbiter) = None"
    using h3 kws by simp
  ultimately show ?thesis using h1 h2 kws by simp
qed

section \<open>Where the house rules come from\<close>





end
